theory Spec2Isabelle
  imports Complex_Main "HOL-Library.Char_ord" "HOL-Library.List_Lexorder"
begin

section \<open>Python values, dictionaries and exceptions\<close>

text \<open>
  The risk engine works on JSON-shaped dictionaries. A field value is modelled as
  \<open>None\<close>, a number or a string. Python's \<open>int\<close> and \<open>float\<close> are both
  read as exact rationals: the rounding of binary floating point is not part of the model.
  An exception raised by an operation on a value of the wrong type is the \<open>Inl\<close> branch
  of a sum.
\<close>

datatype pyval = PNone | PNum rat | PStr string

datatype error = TypeError | AttributeError | ValueError

type_synonym dict = "string \<rightharpoonup> pyval"

text \<open>\<open>d.get(k, dflt)\<close>\<close>

definition dict_get :: "dict \<Rightarrow> string \<Rightarrow> pyval \<Rightarrow> pyval" where
  "dict_get d k dflt = (case d k of None \<Rightarrow> dflt | Some v \<Rightarrow> v)"

text \<open>\<open>x > y\<close>: defined between two numbers and between two strings.\<close>

fun py_gt :: "pyval \<Rightarrow> pyval \<Rightarrow> error + bool" where
  "py_gt (PNum a) (PNum b) = Inr (a > b)"
| "py_gt (PStr a) (PStr b) = Inr (a > b)"
| "py_gt _ _ = Inl TypeError"

text \<open>\<open>max(iterable)\<close>: keeps the first item and replaces it by each later item that
  compares greater.\<close>

fun max_loop :: "pyval \<Rightarrow> pyval list \<Rightarrow> error + pyval" where
  "max_loop m [] = Inr m"
| "max_loop m (x # xs) =
     (case py_gt x m of Inl e \<Rightarrow> Inl e | Inr b \<Rightarrow> max_loop (if b then x else m) xs)"

fun py_max :: "pyval list \<Rightarrow> error + pyval" where
  "py_max [] = Inl ValueError"
| "py_max (x # xs) = max_loop x xs"

text \<open>\<open>x ** 2\<close>\<close>

fun py_square :: "pyval \<Rightarrow> error + rat" where
  "py_square (PNum a) = Inr (a * a)"
| "py_square _ = Inl TypeError"

text \<open>\<open>x / 100\<close>\<close>

fun py_div100 :: "pyval \<Rightarrow> error + rat" where
  "py_div100 (PNum a) = Inr (a / 100)"
| "py_div100 _ = Inl TypeError"

text \<open>\<open>x * w\<close> for a float \<open>w\<close>\<close>

fun py_mul :: "pyval \<Rightarrow> rat \<Rightarrow> error + rat" where
  "py_mul (PNum a) w = Inr (a * w)"
| "py_mul _ w = Inl TypeError"

text \<open>\<open>x - y\<close> for a float \<open>y\<close>\<close>

fun py_sub :: "pyval \<Rightarrow> rat \<Rightarrow> error + rat" where
  "py_sub (PNum a) y = Inr (a - y)"
| "py_sub _ y = Inl TypeError"

text \<open>\<open>acc + x\<close> for a numeric accumulator\<close>

fun py_add :: "rat \<Rightarrow> pyval \<Rightarrow> error + rat" where
  "py_add acc (PNum a) = Inr (acc + a)"
| "py_add acc _ = Inl TypeError"

text \<open>\<open>s.lower()\<close> on ASCII letters; only a string has the method.\<close>

definition lower_char :: "char \<Rightarrow> char" where
  "lower_char c =
     (let n = (of_char c :: nat) in if 65 \<le> n \<and> n \<le> 90 then char_of (n + 32) else c)"

fun py_lower :: "pyval \<Rightarrow> error + string" where
  "py_lower (PStr s) = Inr (map lower_char s)"
| "py_lower _ = Inl AttributeError"

text \<open>\<open>round(x, 1)\<close>: one decimal place, a tie going to the even digit.\<close>

definition round1 :: "rat \<Rightarrow> rat" where
  "round1 x =
     (let y = x * 10; f = \<lfloor>y\<rfloor>; d = y - of_int f
      in of_int (if d < 1 / 2 then f else if 1 / 2 < d then f + 1
                 else if even f then f else f + 1) / 10)"

section \<open>RiskAnalyzer (agents/risk\_guardian/risk\_models.py)\<close>

text \<open>\<open>self.protocol_risk_ratings.get(protocol, 50)\<close>\<close>

definition protocol_risk_ratings :: "string \<rightharpoonup> rat" where
  "protocol_risk_ratings =
     [''minswap'' \<mapsto> 25, ''sundaeswap'' \<mapsto> 30, ''liqwid'' \<mapsto> 35, ''indigo'' \<mapsto> 40,
      ''muesliswap'' \<mapsto> 35, ''wingriders'' \<mapsto> 30]"

definition base_risk_of :: "string \<Rightarrow> rat" where
  "base_risk_of protocol = (case protocol_risk_ratings protocol of None \<Rightarrow> 50 | Some r \<Rightarrow> r)"

subsection \<open>\<open>_calculate_concentration_risk\<close>\<close>

text \<open>The generator of \<open>sum\<close> squares one allocation at a time and adds it to the total.\<close>

fun hhi_loop :: "rat \<Rightarrow> dict list \<Rightarrow> error + rat" where
  "hhi_loop acc [] = Inr acc"
| "hhi_loop acc (alloc # rest) =
     (case py_square (dict_get alloc ''allocation_percent'' (PNum 0)) of
        Inl e \<Rightarrow> Inl e
      | Inr sq \<Rightarrow> hhi_loop (acc + sq) rest)"

definition calculate_concentration_risk :: "dict list \<Rightarrow> error + rat" where
  "calculate_concentration_risk allocations =
     (if allocations = [] then Inr 0
      else case py_max (map (\<lambda>alloc. dict_get alloc ''allocation_percent'' (PNum 0)) allocations) of
        Inl e \<Rightarrow> Inl e
      | Inr max_allocation \<Rightarrow>
          (case hhi_loop 0 allocations of
             Inl e \<Rightarrow> Inl e
           | Inr hhi \<Rightarrow> Inr (min (hhi / 100) 100)))"

subsection \<open>\<open>_calculate_protocol_risk\<close>\<close>

fun protocol_risk_loop :: "rat \<Rightarrow> rat \<Rightarrow> dict list \<Rightarrow> error + rat \<times> rat" where
  "protocol_risk_loop total_risk total_weight [] = Inr (total_risk, total_weight)"
| "protocol_risk_loop total_risk total_weight (alloc # rest) =
     (case py_lower (dict_get alloc ''protocol'' (PStr [])) of
        Inl e \<Rightarrow> Inl e
      | Inr protocol \<Rightarrow>
          (case py_div100 (dict_get alloc ''allocation_percent'' (PNum 0)) of
             Inl e \<Rightarrow> Inl e
           | Inr weight \<Rightarrow>
               (case py_mul (dict_get alloc ''risk_score'' (PNum (base_risk_of protocol))) weight of
                  Inl e \<Rightarrow> Inl e
                | Inr pw \<Rightarrow> protocol_risk_loop (total_risk + pw) (total_weight + weight) rest)))"

definition calculate_protocol_risk :: "dict list \<Rightarrow> error + rat" where
  "calculate_protocol_risk allocations =
     (if allocations = [] then Inr 0
      else case protocol_risk_loop 0 0 allocations of
        Inl e \<Rightarrow> Inl e
      | Inr (total_risk, total_weight) \<Rightarrow>
          if total_weight = 0 then Inr 0 else Inr (total_risk / total_weight))"

subsection \<open>\<open>_calculate_apr_risk\<close>\<close>

text \<open>The \<open>if\<close>/\<open>elif\<close> chain on \<open>apr\<close>; its first comparison raises on a value that
  is not a number.\<close>

fun apr_step :: "pyval \<Rightarrow> error + rat" where
  "apr_step (PNum apr) =
     Inr (if apr > 100 then 80 else if apr > 50 then 60 else if apr > 30 then 40
          else if apr > 15 then 20 else 10)"
| "apr_step _ = Inl TypeError"

fun apr_loop :: "rat list \<Rightarrow> dict list \<Rightarrow> error + rat list" where
  "apr_loop risk_scores [] = Inr risk_scores"
| "apr_loop risk_scores (alloc # rest) =
     (case apr_step (dict_get alloc ''expected_apr'' (PNum 0)) of
        Inl e \<Rightarrow> Inl e
      | Inr s \<Rightarrow> apr_loop (risk_scores @ [s]) rest)"

definition calculate_apr_risk :: "dict list \<Rightarrow> error + rat" where
  "calculate_apr_risk allocations =
     (if allocations = [] then Inr 0
      else case apr_loop [] allocations of
        Inl e \<Rightarrow> Inl e
      | Inr risk_scores \<Rightarrow>
          if risk_scores = [] then Inr 0
          else Inr (sum_list risk_scores / of_nat (length risk_scores)))"

subsection \<open>\<open>_calculate_diversification\<close>\<close>

fun variance_loop :: "rat \<Rightarrow> rat \<Rightarrow> pyval list \<Rightarrow> error + rat" where
  "variance_loop ideal acc [] = Inr acc"
| "variance_loop ideal acc (pct # rest) =
     (case py_sub pct ideal of
        Inl e \<Rightarrow> Inl e
      | Inr d \<Rightarrow> variance_loop ideal (acc + d * d) rest)"

definition balance_score_of :: "dict list \<Rightarrow> error + rat" where
  "balance_score_of allocations =
     (let num_positions = length allocations in
      if num_positions = 1 then Inr 0
      else
        let allocations_pct = map (\<lambda>alloc. dict_get alloc ''allocation_percent'' (PNum 0)) allocations;
            ideal_allocation = 100 / of_nat num_positions
        in case variance_loop ideal_allocation 0 allocations_pct of
             Inl e \<Rightarrow> Inl e
           | Inr s \<Rightarrow> Inr (max 0 (100 - s / of_nat num_positions)))"

definition calculate_diversification :: "dict list \<Rightarrow> error + rat" where
  "calculate_diversification allocations =
     (if allocations = [] then Inr 0
      else
        let num_positions = length allocations;
            protocols = remdups (map (\<lambda>alloc. dict_get alloc ''protocol'' PNone) allocations);
            num_protocols = length protocols
        in case balance_score_of allocations of
             Inl e \<Rightarrow> Inl e
           | Inr balance_score \<Rightarrow>
               Inr (min (of_nat num_protocols / 5 * 40 + of_nat num_positions / 5 * 30
                         + balance_score / 100 * 30) 100))"

section \<open>Well-typed allocation fields\<close>

text \<open>A numeric field of a dictionary is absent or holds a number; \<open>num_of\<close> reads it,
  with the default that \<open>get\<close> is given.\<close>

definition num_field :: "dict \<Rightarrow> string \<Rightarrow> bool" where
  "num_field d k = (case d k of None \<Rightarrow> True | Some (PNum x) \<Rightarrow> True | Some _ \<Rightarrow> False)"

definition num_of :: "dict \<Rightarrow> string \<Rightarrow> rat \<Rightarrow> rat" where
  "num_of d k dflt = (case d k of Some (PNum x) \<Rightarrow> x | _ \<Rightarrow> dflt)"

definition pct_of :: "dict \<Rightarrow> rat" where
  "pct_of alloc = num_of alloc ''allocation_percent'' 0"

text \<open>The Herfindahl-Hirschman index: the sum of the squared percentages.\<close>

definition hhi_of :: "dict list \<Rightarrow> rat" where
  "hhi_of allocations = (\<Sum>alloc\<leftarrow>allocations. pct_of alloc * pct_of alloc)"

definition is_num :: "pyval \<Rightarrow> bool" where
  "is_num v = (case v of PNum x \<Rightarrow> True | _ \<Rightarrow> False)"








subsection \<open>\<open>analyze_strategy\<close>\<close>

text \<open>A strategy dictionary: the keys the risk code reads. \<open>risk_breakdown\<close> holds the
  three sub-scores that the source prints with one decimal (its text form
  \<open>"<score>/100"\<close> is not modelled).\<close>

record strategy =
  strategy_id :: "pyval option"
  recommended_allocations :: "dict list option"

record risk_analysis =
  overall_risk_score :: rat
  concentration_risk :: rat
  protocol_risk :: rat
  apr_risk :: rat
  diversification_score :: rat
  warnings :: "string list"
  recommendations :: "string list"
  risk_breakdown :: "rat \<times> rat \<times> rat"

definition overall_risk_of :: "rat \<Rightarrow> rat \<Rightarrow> rat \<Rightarrow> rat" where
  "overall_risk_of c_risk p_risk a_risk = c_risk * (3 / 10) + p_risk * (4 / 10) + a_risk * (3 / 10)"

definition analyze_strategy :: "strategy \<Rightarrow> error + risk_analysis" where
  "analyze_strategy strat =
     (let allocations = (case recommended_allocations strat of None \<Rightarrow> [] | Some as \<Rightarrow> as) in
      case calculate_concentration_risk allocations of
        Inl e \<Rightarrow> Inl e
      | Inr c_risk \<Rightarrow>
      (case calculate_protocol_risk allocations of
        Inl e \<Rightarrow> Inl e
      | Inr p_risk \<Rightarrow>
      (case calculate_apr_risk allocations of
        Inl e \<Rightarrow> Inl e
      | Inr a_risk \<Rightarrow>
      (case calculate_diversification allocations of
        Inl e \<Rightarrow> Inl e
      | Inr d_score \<Rightarrow>
          let overall_risk = overall_risk_of c_risk p_risk a_risk in
          Inr \<lparr> overall_risk_score = round1 overall_risk,
                concentration_risk = round1 c_risk,
                protocol_risk = round1 p_risk,
                apr_risk = round1 a_risk,
                diversification_score = round1 d_score,
                warnings =
                  (if c_risk > 60
                   then [''High concentration risk: Portfolio not well diversified''] else [])
                  @ (if p_risk > 50
                     then [''High protocol risk: Consider safer protocols''] else [])
                  @ (if a_risk > 60
                     then [''Unusually high APRs detected: Possible high risk''] else []),
                recommendations =
                  (if c_risk > 40
                   then [''Increase diversification across protocols''] else [])
                  @ (if overall_risk > 50
                     then [''Consider reducing risk exposure''] else []),
                risk_breakdown = (round1 c_risk, round1 p_risk, round1 a_risk) \<rparr>))))"

subsection \<open>\<open>_calculate_liquidity_risk\<close> and \<open>analyze_portfolio_health\<close>\<close>

fun tvl_tier :: "pyval \<Rightarrow> error + rat" where
  "tvl_tier (PNum tvl) =
     Inr (if tvl < 50000 then 80 else if tvl < 100000 then 60 else if tvl < 500000 then 40
          else 20)"
| "tvl_tier _ = Inl TypeError"

fun volume_tier :: "pyval \<Rightarrow> error + rat" where
  "volume_tier (PNum volume_24h) =
     Inr (if volume_24h < 10000 then 60 else if volume_24h < 50000 then 30 else 10)"
| "volume_tier _ = Inl TypeError"

fun liquidity_loop :: "rat list \<Rightarrow> dict list \<Rightarrow> error + rat list" where
  "liquidity_loop risk_scores [] = Inr risk_scores"
| "liquidity_loop risk_scores (pos # rest) =
     (case tvl_tier (dict_get pos ''tvl_ada'' (PNum 0)) of
        Inl e \<Rightarrow> Inl e
      | Inr tvl_risk \<Rightarrow>
          (case volume_tier (dict_get pos ''volume_24h'' (PNum 0)) of
             Inl e \<Rightarrow> Inl e
           | Inr volume_risk \<Rightarrow>
               liquidity_loop (risk_scores @ [(tvl_risk + volume_risk) / 2]) rest))"

definition calculate_liquidity_risk :: "dict list \<Rightarrow> error + rat" where
  "calculate_liquidity_risk positions =
     (if positions = [] then Inr 0
      else case liquidity_loop [] positions of
        Inl e \<Rightarrow> Inl e
      | Inr risk_scores \<Rightarrow>
          if risk_scores = [] then Inr 0
          else Inr (sum_list risk_scores / of_nat (length risk_scores)))"

text \<open>\<open>sum(pos.get("value_ada", 0) for pos in positions)\<close>\<close>

fun value_loop :: "rat \<Rightarrow> dict list \<Rightarrow> error + rat" where
  "value_loop acc [] = Inr acc"
| "value_loop acc (pos # rest) =
     (case py_add acc (dict_get pos ''value_ada'' (PNum 0)) of
        Inl e \<Rightarrow> Inl e
      | Inr acc' \<Rightarrow> value_loop acc' rest)"

record portfolio =
  positions :: "dict list option"

record health_report =
  overall_health_score :: rat
  health_concentration_risk :: rat
  liquidity_risk :: rat
  num_positions :: nat
  total_value_ada :: rat

text \<open>What \<open>analyze_portfolio_health\<close> returns: the report of the \<open>try\<close> body, or the
  dictionary \<open>{"overall_health_score": 0, "error": str(e)}\<close> of its handler.\<close>

datatype health_result = HealthReport health_report | HealthError rat error

text \<open>The body of the \<open>try\<close>.\<close>

definition analyze_portfolio_health_try :: "portfolio \<Rightarrow> error + health_report" where
  "analyze_portfolio_health_try pf =
     (let poss = (case positions pf of None \<Rightarrow> [] | Some ps \<Rightarrow> ps) in
      case calculate_concentration_risk poss of
        Inl e \<Rightarrow> Inl e
      | Inr c_risk \<Rightarrow>
      (case calculate_liquidity_risk poss of
        Inl e \<Rightarrow> Inl e
      | Inr l_risk \<Rightarrow>
          let overall_health = 100 - (c_risk * (1 / 2) + l_risk * (1 / 2)) in
          (case value_loop 0 poss of
             Inl e \<Rightarrow> Inl e
           | Inr total_value \<Rightarrow>
               Inr \<lparr> overall_health_score = round1 overall_health,
                     health_concentration_risk = round1 c_risk,
                     liquidity_risk = round1 l_risk,
                     num_positions = length poss,
                     total_value_ada = total_value \<rparr>)))"

definition analyze_portfolio_health :: "portfolio \<Rightarrow> health_result" where
  "analyze_portfolio_health pf =
     (case analyze_portfolio_health_try pf of
        Inr report \<Rightarrow> HealthReport report
      | Inl e \<Rightarrow> HealthError 0 e)"

subsection \<open>\<open>validate_transaction\<close>\<close>

text \<open>A warning is the fixed text \<open>"Large transaction amount"\<close> or the handler's
  \<open>"Validation error: " + str(e)\<close>.\<close>

datatype tx_warning = Large_transaction_amount | Validation_error error

record validation =
  tx_approved :: bool
  tx_risk_score :: rat
  tx_warnings :: "tx_warning list"

text \<open>The body of the \<open>try\<close>.\<close>

definition validate_transaction_try :: "dict \<Rightarrow> error + validation" where
  "validate_transaction_try transaction =
     (let tx_type = dict_get transaction ''type'' (PStr []);
          amount = dict_get transaction ''amount'' (PNum 0)
      in case py_lower (dict_get transaction ''protocol'' (PStr [])) of
        Inl e \<Rightarrow> Inl e
      | Inr protocol \<Rightarrow>
          let risk_score0 = 30 + base_risk_of protocol * (1 / 2) in
          (case py_gt amount (PNum 100000) of
             Inl e \<Rightarrow> Inl e
           | Inr large \<Rightarrow>
           (case (if large then Inr False else py_gt amount (PNum 50000)) of
             Inl e \<Rightarrow> Inl e
           | Inr medium \<Rightarrow>
               let ws = (if large then [Large_transaction_amount] else []);
                   risk_score1 = risk_score0 + (if large then 20 else if medium then 10 else 0);
                   risk_score =
                     risk_score1
                     + (if tx_type \<in> set [PStr ''swap'', PStr ''add_liquidity''] then 10
                        else if tx_type = PStr ''lending_supply'' then 15 else 0)
               in Inr \<lparr> tx_approved = (risk_score \<le> 70),
                         tx_risk_score = round1 risk_score,
                         tx_warnings = ws \<rparr>)))"

definition validate_transaction :: "dict \<Rightarrow> validation" where
  "validate_transaction transaction =
     (case validate_transaction_try transaction of
        Inr v \<Rightarrow> v
      | Inl e \<Rightarrow> \<lparr> tx_approved = False, tx_risk_score = 100,
                    tx_warnings = [Validation_error e] \<rparr>)"

text \<open>The step value of an allocation whose \<open>expected_apr\<close> is a number or absent.\<close>

definition apr_score_of :: "dict \<Rightarrow> rat" where
  "apr_score_of alloc =
     (case apr_step (PNum (num_of alloc ''expected_apr'' 0)) of Inr s \<Rightarrow> s | Inl e \<Rightarrow> 0)"

text \<open>\<open>n\<close> positions of \<open>100 / n\<close> percent each, in \<open>n\<close> distinct protocols.\<close>

definition equal_positions :: "nat \<Rightarrow> dict list \<Rightarrow> bool" where
  "equal_positions n allocations =
     (length allocations = n
      \<and> (\<forall>alloc \<in> set allocations. alloc ''allocation_percent'' = Some (PNum (100 / of_nat n)))
      \<and> distinct (map (\<lambda>alloc. dict_get alloc ''protocol'' PNone) allocations))"

section \<open>RiskGuardianAgent.assess\_strategy (agents/risk\_guardian/agent.py)\<close>

text \<open>The fields of the agent object that \<open>assess_strategy\<close> reads.\<close>

record risk_guardian =
  agent_id :: "string option"
  wallet_id :: string
  price_per_check :: rat

text \<open>The response dictionary. \<open>payment\<close> holds \<open>payment_id\<close> and \<open>payment_status\<close>,
  which are set only when a requester wallet is given.\<close>

record assessment =
  agent :: string
  assessment_agent_id :: "string option"
  assessment_strategy_id :: pyval
  approved :: bool
  risk_analysis :: risk_analysis
  timestamp :: rat
  processing_time_seconds :: rat
  price_ada :: rat
  payment :: "(string \<times> string) option"

text \<open>\<open>strategy.get('strategy_id', 'unknown')[:16]\<close>: only a string can be sliced here.\<close>

definition strategy_id_prefix :: "strategy \<Rightarrow> error + string" where
  "strategy_id_prefix strat =
     (case strategy_id strat of
        None \<Rightarrow> Inr (take 16 ''unknown'')
      | Some (PStr s) \<Rightarrow> Inr (take 16 s)
      | Some _ \<Rightarrow> Inl TypeError)"

text \<open>
  \<open>start_time\<close> and \<open>end_time\<close> are the two clock readings; \<open>create_payment\<close> is the
  outcome of the call to the payment service, which is made only for a requester wallet
  that is neither \<open>None\<close> nor the empty string.
\<close>

definition assess_strategy ::
  "risk_guardian \<Rightarrow> strategy \<Rightarrow> string option \<Rightarrow> (error + string \<times> string) \<Rightarrow> rat \<Rightarrow> rat
   \<Rightarrow> error + assessment" where
  "assess_strategy self strat requester_wallet_id create_payment start_time end_time =
     (case analyze_strategy strat of
        Inl e \<Rightarrow> Inl e
      | Inr analysis \<Rightarrow>
          let is_approved = (overall_risk_score analysis \<le> 70);
              response =
                \<lparr> agent = ''risk_guardian'',
                  assessment_agent_id = agent_id self,
                  assessment_strategy_id =
                    (case strategy_id strat of None \<Rightarrow> PNone | Some v \<Rightarrow> v),
                  approved = is_approved,
                  risk_analysis = analysis,
                  timestamp = end_time,
                  processing_time_seconds = end_time - start_time,
                  price_ada = price_per_check self,
                  payment = None \<rparr>
          in case requester_wallet_id of
               None \<Rightarrow> Inr response
             | Some w \<Rightarrow>
                 if w = [] then Inr response
                 else
                   (case strategy_id_prefix strat of
                      Inl e \<Rightarrow> Inl e
                    | Inr description \<Rightarrow>
                        (case create_payment of
                           Inl e \<Rightarrow> Inl e
                         | Inr p \<Rightarrow> Inr (response\<lparr>payment := Some p\<rparr>))))"

section \<open>SimpleRiskAgent.execute (agents/simple\_agents.py)\<close>

record simple_risk_payload =
  simple_agent :: string
  simple_approved :: bool
  simple_overall_risk_score :: rat
  simple_risk_breakdown :: "(string \<times> rat) list"
  simple_warnings :: "string list"
  simple_recommendations :: "string list"
  ai_analysis :: string
  simple_timestamp :: rat

text \<open>\<open>success: True\<close> with the payload, or \<open>success: False\<close> with the text of the
  exception and the agent's name.\<close>

datatype simple_risk_result = RiskSuccess simple_risk_payload | RiskFailure string string

text \<open>\<open>llm_invoke\<close> is the outcome of \<open>self.llm.invoke(messages)\<close>: the text of the
  exception it raised, or the content of its response.\<close>

definition simple_risk_execute :: "(string + string) \<Rightarrow> rat \<Rightarrow> simple_risk_result" where
  "simple_risk_execute llm_invoke now =
     (case llm_invoke of
        Inl e \<Rightarrow> RiskFailure e ''risk_guardian''
      | Inr content \<Rightarrow>
          RiskSuccess
            \<lparr> simple_agent = ''risk_guardian'',
              simple_approved = True,
              simple_overall_risk_score = 55 / 2,
              simple_risk_breakdown =
                [(''smart_contract_risk'', 20), (''liquidity_risk'', 25),
                 (''concentration_risk'', 30), (''market_volatility'', 35)],
              simple_warnings =
                [''Moderate concentration in volatile assets'',
                 ''Consider diversifying across more protocols''],
              simple_recommendations =
                [''Limit single-protocol exposure to <40%'',
                 ''Monitor liquidity levels daily'',
                 ''Set stop-loss at -15%''],
              ai_analysis = content,
              simple_timestamp = now \<rparr>)"

section \<open>The job endpoints (api/routes/mip003.py)\<close>

datatype JobStatus =
  AWAITING_PAYMENT | PAYMENT_RECEIVED | IN_PROGRESS | COMPLETED | FAILED | CANCELLED

text \<open>A job record of \<open>jobs_db\<close>. A time stamp is a reading of the clock; \<open>'r\<close> is the
  type of an agent's result.\<close>

record 'r job =
  job_id :: string
  agent_type :: string
  status :: JobStatus
  payment_id :: string
  payment_status :: string
  input_data :: dict
  identifier_from_purchaser :: "string option"
  created_at :: nat
  updated_at :: nat
  result :: "'r option"
  error :: "string option"

type_synonym 'r jobs_db = "string \<rightharpoonup> 'r job"

text \<open>The \<open>detail\<close> of an \<open>HTTPException\<close>, by the message it formats.\<close>

datatype detail =
  Invalid_agent_type
| Agent_not_available string
| Job_not_found string
| Cannot_cancel_job_in_status JobStatus

datatype http_error = HTTPException nat detail

text \<open>An agent is its \<open>execute\<close> method: it returns a result or raises, \<open>Inl\<close> holding
  the text of the exception.\<close>

type_synonym 'r agent = "dict \<Rightarrow> string + 'r"

record 'r app_state =
  market_agent :: "'r agent option"
  strategy_agent :: "'r agent option"
  risk_agent :: "'r agent option"

record start_job_request =
  request_agent_type :: string
  request_input_data :: dict
  request_identifier_from_purchaser :: "string option"

record payment_request =
  request_payment_id :: string
  amount_lovelace :: int
  recipient_address :: string
  metadata :: "string \<times> string \<times> string option"

record start_job_response =
  response_job_id :: string
  response_status :: JobStatus
  response_payment_request :: payment_request
  response_created_at :: nat

text \<open>The arguments of the background task that \<open>start_job\<close> adds.\<close>

record 'r task =
  task_job_id :: string
  task_payment_id :: string
  task_agent :: "'r agent"
  task_input_data :: dict

record 'r agent_config =
  config_agent :: "'r agent option"
  config_price_ada :: rat
  config_name :: string
  config_wallet_address :: string

definition agent_config :: "'r app_state \<Rightarrow> string \<rightharpoonup> 'r agent_config" where
  "agent_config app =
     [''market'' \<mapsto>
        \<lparr> config_agent = market_agent app, config_price_ada = 1 / 100,
          config_name = ''Market Intelligence Agent'',
          config_wallet_address = ''addr_test1market_demo'' \<rparr>,
      ''strategy'' \<mapsto>
        \<lparr> config_agent = strategy_agent app, config_price_ada = 5 / 100,
          config_name = ''Strategy Executor Agent'',
          config_wallet_address = ''addr_test1strategy_demo'' \<rparr>,
      ''risk'' \<mapsto>
        \<lparr> config_agent = risk_agent app, config_price_ada = 2 / 100,
          config_name = ''Risk Guardian Agent'',
          config_wallet_address = ''addr_test1risk_demo'' \<rparr>]"

text \<open>
  \<open>start_job\<close>. The two fresh UUIDs and the clock reading are arguments. The function
  returns the store, and either the HTTP error or the response together with the
  background task it scheduled.
\<close>

definition start_job ::
  "'r app_state \<Rightarrow> 'r jobs_db \<Rightarrow> start_job_request \<Rightarrow> string \<Rightarrow> string \<Rightarrow> nat
   \<Rightarrow> 'r jobs_db \<times> (http_error + start_job_response \<times> 'r task)" where
  "start_job app jobs job_request new_job_id new_payment_id now =
     (case agent_config app (request_agent_type job_request) of
        None \<Rightarrow> (jobs, Inl (HTTPException 400 Invalid_agent_type))
      | Some config \<Rightarrow>
          (case config_agent config of
             None \<Rightarrow> (jobs, Inl (HTTPException 503 (Agent_not_available (config_name config))))
           | Some the_agent \<Rightarrow>
               let pay_request =
                     \<lparr> request_payment_id = new_payment_id,
                       amount_lovelace = \<lfloor>config_price_ada config * 1000000\<rfloor>,
                       recipient_address = config_wallet_address config,
                       metadata = (new_job_id, request_agent_type job_request,
                                   request_identifier_from_purchaser job_request) \<rparr>;
                   new_job =
                     \<lparr> job_id = new_job_id,
                       agent_type = request_agent_type job_request,
                       status = AWAITING_PAYMENT,
                       payment_id = new_payment_id,
                       payment_status = ''awaiting'',
                       input_data = request_input_data job_request,
                       identifier_from_purchaser = request_identifier_from_purchaser job_request,
                       created_at = now,
                       updated_at = now,
                       result = None,
                       error = None \<rparr>
               in (jobs(new_job_id \<mapsto> new_job),
                   Inr (\<lparr> response_job_id = new_job_id,
                          response_status = AWAITING_PAYMENT,
                          response_payment_request = pay_request,
                          response_created_at = now \<rparr>,
                        \<lparr> task_job_id = new_job_id,
                          task_payment_id = new_payment_id,
                          task_agent = the_agent,
                          task_input_data = request_input_data job_request \<rparr>))))"

text \<open>\<open>cancel_job\<close> (\<open>DELETE /jobs/{job_id}\<close>): the store and the HTTP error or the
  confirmation (job id and the text \<open>"cancelled"\<close>).\<close>

definition cancel_job ::
  "'r jobs_db \<Rightarrow> string \<Rightarrow> nat \<Rightarrow> 'r jobs_db \<times> (http_error + string \<times> string)" where
  "cancel_job jobs jid now =
     (case jobs jid of
        None \<Rightarrow> (jobs, Inl (HTTPException 404 (Job_not_found jid)))
      | Some j \<Rightarrow>
          if status j \<in> set [COMPLETED, FAILED]
          then (jobs, Inl (HTTPException 400 (Cannot_cancel_job_in_status (status j))))
          else (jobs(jid \<mapsto> j\<lparr>status := CANCELLED, updated_at := now\<rparr>),
                Inr (jid, ''cancelled'')))"

subsection \<open>\<open>poll_payment_status\<close>\<close>

text \<open>
  The background task suspends twice: in \<open>asyncio.sleep(2)\<close> and in the call of the agent.
  Other handlers can run only there, so the task is three steps. \<open>poll_wake\<close> is the code
  from the end of the sleep to the call of the agent: it returns the store and whether the
  task goes on. Each assignment of \<open>updated_at\<close> reads the clock.
\<close>

definition poll_wake :: "'r jobs_db \<Rightarrow> string \<Rightarrow> nat \<Rightarrow> nat \<Rightarrow> 'r jobs_db \<times> bool" where
  "poll_wake jobs jid now1 now2 =
     (case jobs jid of
        None \<Rightarrow> (jobs, False)
      | Some j \<Rightarrow>
          let j1 = j\<lparr>status := PAYMENT_RECEIVED, payment_status := ''confirmed'',
                     updated_at := now1\<rparr>;
              j2 = j1\<lparr>status := IN_PROGRESS, updated_at := now2\<rparr>
          in (jobs(jid \<mapsto> j2), True))"

text \<open>
  \<open>poll_finish\<close> is the code after the agent's call: it stores the result, or the handler
  of the \<open>try\<close> stores the text of the exception. An assignment to a job that is no
  longer in the store raises \<open>KeyError\<close>, which the same handler drops.
\<close>

definition poll_finish :: "'r jobs_db \<Rightarrow> string \<Rightarrow> (string + 'r) \<Rightarrow> nat \<Rightarrow> 'r jobs_db" where
  "poll_finish jobs jid outcome now =
     (case jobs jid of
        None \<Rightarrow> jobs
      | Some j \<Rightarrow>
          (case outcome of
             Inr res \<Rightarrow> jobs(jid \<mapsto> j\<lparr>status := COMPLETED, result := Some res, updated_at := now\<rparr>)
           | Inl e \<Rightarrow> jobs(jid \<mapsto> j\<lparr>status := FAILED, error := Some e, updated_at := now\<rparr>)))"

text \<open>The whole task, when no other handler runs while it is suspended.\<close>

definition poll_payment_status :: "'r jobs_db \<Rightarrow> 'r task \<Rightarrow> nat \<Rightarrow> nat \<Rightarrow> nat \<Rightarrow> 'r jobs_db" where
  "poll_payment_status jobs t now1 now2 now3 =
     (case poll_wake jobs (task_job_id t) now1 now2 of
        (jobs1, False) \<Rightarrow> jobs1
      | (jobs1, True) \<Rightarrow>
          poll_finish jobs1 (task_job_id t) (task_agent t (task_input_data t)) now3)"

section \<open>PaymentService (masumi\_integration/payment\_service.py)\<close>





section \<open>Properties of the risk metrics\<close>

lemma dict_get_num:
  "num_field d k \<Longrightarrow> dict_get d k (PNum dflt) = PNum (num_of d k dflt)"
  by (auto simp: num_field_def dict_get_def num_of_def split: option.splits pyval.splits)

lemma max_loop_num:
  "\<forall>v \<in> set vs. is_num v \<Longrightarrow> is_num m \<Longrightarrow> \<exists>r. max_loop m vs = Inr r"
proof (induction vs arbitrary: m)
  case Nil
  then show ?case by simp
next
  case (Cons a vs)
  then show ?case by (cases a; cases m) (simp_all add: is_num_def)
qed

lemma py_max_num:
  assumes "vs \<noteq> []" and "\<forall>v \<in> set vs. is_num v"
  shows "\<exists>r. py_max vs = Inr r"
proof (cases vs)
  case Nil
  with assms show ?thesis by simp
next
  case (Cons a rest)
  with assms max_loop_num [of rest a] show ?thesis by simp
qed

lemma hhi_loop_num:
  "\<forall>alloc \<in> set allocations. num_field alloc ''allocation_percent'' \<Longrightarrow>
   hhi_loop acc allocations = Inr (acc + hhi_of allocations)"
proof (induction allocations arbitrary: acc)
  case Nil
  then show ?case by (simp add: hhi_of_def)
next
  case (Cons a rest)
  then have "hhi_loop (acc + pct_of a * pct_of a) rest
             = Inr (acc + pct_of a * pct_of a + hhi_of rest)"
    by simp
  with Cons.prems show ?case
    by (simp add: dict_get_num pct_of_def hhi_of_def)
qed

text \<open>
  Claim C5, as amended. On every allocation list whose \<open>allocation_percent\<close> fields are
  numbers (or absent, read as 0), \<open>_calculate_concentration_risk\<close> returns the sum of the
  squared percentages divided by 100, clamped to 100; the empty list gives 0; a single
  100 percent position gives exactly 100; five equal 20 percent positions give exactly 20
  (the index is \<open>5 * 400 = 2000\<close>, and \<open>2000 / 100 = 20\<close>).
\<close>

theorem concentration_risk_hhi:
  "((\<forall>alloc \<in> set allocations. num_field alloc ''allocation_percent'') \<longrightarrow>
      calculate_concentration_risk allocations = Inr (min (hhi_of allocations / 100) 100))
   \<and> calculate_concentration_risk [] = Inr 0
   \<and> calculate_concentration_risk [[''allocation_percent'' \<mapsto> PNum 100]] = Inr 100
   \<and> calculate_concentration_risk (replicate 5 [''allocation_percent'' \<mapsto> PNum 20]) = Inr 20"
proof (intro conjI impI)
  assume wt: "\<forall>alloc \<in> set allocations. num_field alloc ''allocation_percent''"
  show "calculate_concentration_risk allocations = Inr (min (hhi_of allocations / 100) 100)"
  proof (cases "allocations = []")
    case True
    then show ?thesis by (simp add: calculate_concentration_risk_def hhi_of_def)
  next
    case False
    let ?vs = "map (\<lambda>alloc. dict_get alloc ''allocation_percent'' (PNum 0)) allocations"
    from wt have "\<forall>v \<in> set ?vs. is_num v"
      by (auto simp: dict_get_num is_num_def)
    with False obtain r where "py_max ?vs = Inr r"
      using py_max_num [of ?vs] by auto
    with False wt show ?thesis
      by (simp add: calculate_concentration_risk_def hhi_loop_num)
  qed
next
  show "calculate_concentration_risk [] = Inr 0"
    by (simp add: calculate_concentration_risk_def)
next
  show "calculate_concentration_risk [[''allocation_percent'' \<mapsto> PNum 100]] = Inr 100"
    by (simp add: calculate_concentration_risk_def dict_get_def)
next
  show "calculate_concentration_risk (replicate 5 [''allocation_percent'' \<mapsto> PNum 20]) = Inr 20"
    by (simp add: calculate_concentration_risk_def dict_get_def numeral_eq_Suc)
qed

theorem concentration_risk_hhi_witness:
  "calculate_concentration_risk
     [[''allocation_percent'' \<mapsto> PNum 60], [''allocation_percent'' \<mapsto> PNum 40]] = Inr 52"
  using concentration_risk_hhi
    [of "[[''allocation_percent'' \<mapsto> PNum 60], [''allocation_percent'' \<mapsto> PNum 40]]"]
  by (simp add: num_field_def hhi_of_def pct_of_def num_of_def)

text \<open>
  Claim C5 as stated: five equal 20 percent positions would give 5. The code gives 20.
\<close>

theorem concentration_five_equal_counterexample:
  "calculate_concentration_risk (replicate 5 [''allocation_percent'' \<mapsto> PNum 20]) \<noteq> Inr 5"
  by (simp add: calculate_concentration_risk_def dict_get_def numeral_eq_Suc)







lemma apr_score_of_range: "10 \<le> apr_score_of alloc \<and> apr_score_of alloc \<le> 80"
  by (simp add: apr_score_of_def)

lemma apr_loop_typed:
  "\<forall>alloc \<in> set allocations. num_field alloc ''expected_apr'' \<Longrightarrow>
   apr_loop risk_scores allocations = Inr (risk_scores @ map apr_score_of allocations)"
proof (induction allocations arbitrary: risk_scores)
  case Nil
  then show ?case by simp
next
  case (Cons a rest)
  then show ?case by (simp add: dict_get_num apr_score_of_def)
qed

lemma sum_list_between:
  fixes xs :: "rat list"
  assumes "\<forall>x \<in> set xs. lo \<le> x \<and> x \<le> hi"
  shows "lo * of_nat (length xs) \<le> sum_list xs \<and> sum_list xs \<le> hi * of_nat (length xs)"
  using assms by (induction xs) (auto simp: algebra_simps)

lemma average_between:
  fixes xs :: "rat list"
  assumes "xs \<noteq> []" and "\<forall>x \<in> set xs. lo \<le> x \<and> x \<le> hi"
  shows "lo \<le> sum_list xs / of_nat (length xs) \<and> sum_list xs / of_nat (length xs) \<le> hi"
proof -
  from assms(1) have pos: "(0::rat) < of_nat (length xs)" by simp
  from sum_list_between [OF assms(2)] pos show ?thesis
    by (simp add: pos_le_divide_eq pos_divide_le_eq)
qed

lemma apr_risk_typed:
  assumes "allocations \<noteq> []" and "\<forall>alloc \<in> set allocations. num_field alloc ''expected_apr''"
  shows "calculate_apr_risk allocations
         = Inr (sum_list (map apr_score_of allocations) / of_nat (length allocations))"
  using assms by (simp add: calculate_apr_risk_def apr_loop_typed)

lemma absent_num_field: "d k = None \<Longrightarrow> num_field d k"
  by (simp add: num_field_def)

lemma absent_apr_score: "alloc ''expected_apr'' = None \<Longrightarrow> apr_score_of alloc = 10"
  by (simp add: apr_score_of_def num_of_def)

lemma sum_list_const:
  fixes c :: rat
  shows "\<forall>x \<in> set xs. f x = c \<Longrightarrow> sum_list (map f xs) = c * of_nat (length xs)"
  by (induction xs) (auto simp: algebra_simps)

lemma apr_risk_no_data:
  assumes "allocations \<noteq> []" and "\<forall>alloc \<in> set allocations. alloc ''expected_apr'' = None"
  shows "calculate_apr_risk allocations = Inr 10"
proof -
  from assms(2) have typed: "\<forall>alloc \<in> set allocations. num_field alloc ''expected_apr''"
    by (simp add: absent_num_field)
  from assms(2) have "\<forall>alloc \<in> set allocations. apr_score_of alloc = 10"
    by (simp add: absent_apr_score)
  then have "sum_list (map apr_score_of allocations) = 10 * of_nat (length allocations)"
    by (rule sum_list_const)
  with assms(1) apr_risk_typed [OF assms(1) typed] show ?thesis by simp
qed

lemma round1_near: "\<bar>round1 x - x\<bar> \<le> 1 / 20"
proof -
  let ?f = "\<lfloor>x * 10\<rfloor>"
  let ?d = "x * 10 - of_int ?f"
  have lo: "of_int ?f \<le> x * 10" by (rule of_int_floor_le)
  have hi: "x * 10 < of_int ?f + 1" by linarith
  consider "?d < 1 / 2" | "1 / 2 < ?d" | "?d = 1 / 2" by linarith
  then show ?thesis
  proof cases
    case 1
    then have r: "round1 x = of_int ?f / 10" by (simp add: round1_def Let_def)
    from lo 1 show ?thesis unfolding r abs_le_iff by linarith
  next
    case 2
    then have r: "round1 x = (of_int ?f + 1) / 10" by (simp add: round1_def Let_def)
    from hi 2 show ?thesis unfolding r abs_le_iff add_divide_distrib by linarith
  next
    case 3
    then have "round1 x = of_int ?f / 10 \<or> round1 x = (of_int ?f + 1) / 10"
      by (simp add: round1_def Let_def)
    then show ?thesis
    proof
      assume r: "round1 x = of_int ?f / 10"
      from 3 show ?thesis unfolding r abs_le_iff by linarith
    next
      assume r: "round1 x = (of_int ?f + 1) / 10"
      from 3 show ?thesis unfolding r abs_le_iff add_divide_distrib by linarith
    qed
  qed
qed


text \<open>
  Claim C10, as amended. On every non-empty allocation list whose \<open>expected_apr\<close> fields
  are numbers or absent, \<open>_calculate_apr_risk\<close> returns a value between 10 and 80. An
  allocation without \<open>expected_apr\<close> is scored as APR 0 and contributes the lowest step,
  10; a non-empty list with no APR data at all scores exactly 10, and it then adds
  \<open>10 * 0.3 = 3\<close> points to the weighted sum that \<open>analyze_strategy\<close> rounds to one
  decimal and reports, so the reported score is within 0.05 of
  \<open>0.3 * concentration + 0.4 * protocol + 3\<close>.
\<close>

theorem apr_risk_range:
  "(allocations \<noteq> [] \<and> (\<forall>alloc \<in> set allocations. num_field alloc ''expected_apr'') \<longrightarrow>
      (\<exists>v. calculate_apr_risk allocations = Inr v \<and> 10 \<le> v \<and> v \<le> 80))
   \<and> (alloc ''expected_apr'' = None \<longrightarrow>
        apr_step (dict_get alloc ''expected_apr'' (PNum 0)) = Inr 10)
   \<and> (allocations \<noteq> [] \<and> (\<forall>alloc \<in> set allocations. alloc ''expected_apr'' = None) \<longrightarrow>
        calculate_apr_risk allocations = Inr 10)
   \<and> (recommended_allocations strat = Some allocations \<and> allocations \<noteq> []
       \<and> (\<forall>alloc \<in> set allocations. alloc ''expected_apr'' = None)
       \<and> analyze_strategy strat = Inr analysis \<longrightarrow>
        (\<exists>c_risk p_risk.
           calculate_concentration_risk allocations = Inr c_risk
           \<and> calculate_protocol_risk allocations = Inr p_risk
           \<and> overall_risk_score analysis
               = round1 (c_risk * (3 / 10) + p_risk * (4 / 10) + 3)
           \<and> \<bar>overall_risk_score analysis - (c_risk * (3 / 10) + p_risk * (4 / 10) + 3)\<bar>
               \<le> 1 / 20))"
proof (intro conjI impI)
  assume a: "allocations \<noteq> [] \<and> (\<forall>alloc \<in> set allocations. num_field alloc ''expected_apr'')"
  let ?xs = "map apr_score_of allocations"
  from a have "?xs \<noteq> []" by simp
  moreover have "\<forall>x \<in> set ?xs. 10 \<le> x \<and> x \<le> 80"
    using apr_score_of_range by auto
  ultimately have "10 \<le> sum_list ?xs / of_nat (length ?xs) \<and> sum_list ?xs / of_nat (length ?xs) \<le> 80"
    by (rule average_between)
  with a apr_risk_typed [of allocations]
  show "\<exists>v. calculate_apr_risk allocations = Inr v \<and> 10 \<le> v \<and> v \<le> 80"
    by simp
next
  assume "alloc ''expected_apr'' = None"
  then show "apr_step (dict_get alloc ''expected_apr'' (PNum 0)) = Inr 10"
    by (simp add: dict_get_def)
next
  assume "allocations \<noteq> [] \<and> (\<forall>alloc \<in> set allocations. alloc ''expected_apr'' = None)"
  then show "calculate_apr_risk allocations = Inr 10"
    by (simp add: apr_risk_no_data)
next
  assume a: "recommended_allocations strat = Some allocations \<and> allocations \<noteq> []
       \<and> (\<forall>alloc \<in> set allocations. alloc ''expected_apr'' = None)
       \<and> analyze_strategy strat = Inr analysis"
  then have apr: "calculate_apr_risk allocations = Inr 10"
    by (simp add: apr_risk_no_data)
  from a have run: "analyze_strategy strat = Inr analysis"
    and allocs: "recommended_allocations strat = Some allocations" by simp_all
  from run allocs apr
  have "\<exists>c_risk p_risk.
           calculate_concentration_risk allocations = Inr c_risk
           \<and> calculate_protocol_risk allocations = Inr p_risk
           \<and> overall_risk_score analysis
               = round1 (c_risk * (3 / 10) + p_risk * (4 / 10) + 3)"
    by (auto simp: analyze_strategy_def overall_risk_of_def Let_def split: sum.splits)
  then obtain c_risk p_risk where c: "calculate_concentration_risk allocations = Inr c_risk"
    and p: "calculate_protocol_risk allocations = Inr p_risk"
    and s: "overall_risk_score analysis = round1 (c_risk * (3 / 10) + p_risk * (4 / 10) + 3)"
    by blast
  have "\<bar>overall_risk_score analysis - (c_risk * (3 / 10) + p_risk * (4 / 10) + 3)\<bar> \<le> 1 / 20"
    unfolding s by (rule round1_near)
  with c p s
  show "\<exists>c_risk p_risk.
           calculate_concentration_risk allocations = Inr c_risk
           \<and> calculate_protocol_risk allocations = Inr p_risk
           \<and> overall_risk_score analysis
               = round1 (c_risk * (3 / 10) + p_risk * (4 / 10) + 3)
           \<and> \<bar>overall_risk_score analysis - (c_risk * (3 / 10) + p_risk * (4 / 10) + 3)\<bar>
               \<le> 1 / 20"
    by blast
qed

theorem apr_risk_range_witness:
  "calculate_apr_risk
     [[''protocol'' \<mapsto> PStr ''minswap'', ''expected_apr'' \<mapsto> PNum 200],
      [''protocol'' \<mapsto> PStr ''liqwid'', ''expected_apr'' \<mapsto> PNum 60],
      [''protocol'' \<mapsto> PStr ''indigo'', ''expected_apr'' \<mapsto> PNum 35],
      [''protocol'' \<mapsto> PStr ''sundaeswap'', ''expected_apr'' \<mapsto> PNum 20],
      [''protocol'' \<mapsto> PStr ''wingriders'']] = Inr 42
   \<and> (\<exists>v. calculate_apr_risk
     [[''protocol'' \<mapsto> PStr ''minswap'', ''expected_apr'' \<mapsto> PNum 200],
      [''protocol'' \<mapsto> PStr ''liqwid'', ''expected_apr'' \<mapsto> PNum 60],
      [''protocol'' \<mapsto> PStr ''indigo'', ''expected_apr'' \<mapsto> PNum 35],
      [''protocol'' \<mapsto> PStr ''sundaeswap'', ''expected_apr'' \<mapsto> PNum 20],
      [''protocol'' \<mapsto> PStr ''wingriders'']] = Inr v \<and> 10 \<le> v \<and> v \<le> 80)
   \<and> calculate_apr_risk
     [[''protocol'' \<mapsto> PStr ''minswap'', ''allocation_percent'' \<mapsto> PNum 60],
      [''protocol'' \<mapsto> PStr ''liqwid'', ''allocation_percent'' \<mapsto> PNum 40]] = Inr 10
   \<and> (\<exists>analysis.
        analyze_strategy
          \<lparr> strategy_id = None,
            recommended_allocations =
              Some [[''protocol'' \<mapsto> PStr ''minswap'', ''allocation_percent'' \<mapsto> PNum 60],
                    [''protocol'' \<mapsto> PStr ''liqwid'', ''allocation_percent'' \<mapsto> PNum 40]] \<rparr>
          = Inr analysis
        \<and> overall_risk_score analysis = 151 / 5)"
proof -
  let ?mixed = "[[''protocol'' \<mapsto> PStr ''minswap'', ''expected_apr'' \<mapsto> PNum 200],
      [''protocol'' \<mapsto> PStr ''liqwid'', ''expected_apr'' \<mapsto> PNum 60],
      [''protocol'' \<mapsto> PStr ''indigo'', ''expected_apr'' \<mapsto> PNum 35],
      [''protocol'' \<mapsto> PStr ''sundaeswap'', ''expected_apr'' \<mapsto> PNum (20::rat)],
      [''protocol'' \<mapsto> PStr ''wingriders'']]"
  let ?as = "[[''protocol'' \<mapsto> PStr ''minswap'', ''allocation_percent'' \<mapsto> PNum 60],
      [''protocol'' \<mapsto> PStr ''liqwid'', ''allocation_percent'' \<mapsto> PNum (40::rat)]]"
  let ?s = "\<lparr> strategy_id = None, recommended_allocations = Some ?as \<rparr>"
  have typed: "?mixed \<noteq> [] \<and> (\<forall>alloc \<in> set ?mixed. num_field alloc ''expected_apr'')"
    by (simp add: num_field_def)
  have nodata: "?as \<noteq> [] \<and> (\<forall>alloc \<in> set ?as. alloc ''expected_apr'' = None)"
    by simp
  have m: "calculate_apr_risk ?mixed = Inr 42" by code_simp
  from apr_risk_range [of ?mixed, THEN conjunct1, THEN mp, OF typed]
  have range: "\<exists>v. calculate_apr_risk ?mixed = Inr v \<and> 10 \<le> v \<and> v \<le> 80" .
  have c: "calculate_concentration_risk ?as = Inr 52" by code_simp
  have p: "calculate_protocol_risk ?as = Inr 29" by code_simp
  have d: "calculate_diversification ?as = Inr 28" by code_simp
  have r: "round1 (52 * (3 / 10) + 29 * (4 / 10) + 3) = 151 / 5" by code_simp
  from apr_risk_range [of ?as] nodata have a: "calculate_apr_risk ?as = Inr 10"
    by simp
  have "\<exists>analysis. analyze_strategy ?s = Inr analysis"
    by (simp add: analyze_strategy_def Let_def c p d a)
  then obtain analysis where run: "analyze_strategy ?s = Inr analysis" ..
  from apr_risk_range [of ?as _ ?s analysis] nodata run c p r
  have score: "overall_risk_score analysis = 151 / 5" by simp
  from m range a run score show ?thesis by blast
qed

text \<open>
  Claim C10 as stated covers every non-empty allocation list. An \<open>expected_apr\<close> that is
  present and holds \<open>None\<close> or a string makes the first comparison raise: no value is
  returned.
\<close>

theorem apr_risk_untyped_counterexample:
  "calculate_apr_risk [[''protocol'' \<mapsto> PStr ''minswap'', ''allocation_percent'' \<mapsto> PNum 100,
                        ''expected_apr'' \<mapsto> PNone]] = Inl TypeError
   \<and> calculate_apr_risk [[''protocol'' \<mapsto> PStr ''minswap'', ''allocation_percent'' \<mapsto> PNum 100,
                        ''expected_apr'' \<mapsto> PStr ''12%'']] = Inl TypeError"
  by code_simp

lemma variance_loop_ideal:
  "\<forall>v \<in> set pcts. v = PNum ideal \<Longrightarrow> variance_loop ideal acc pcts = Inr acc"
  by (induction pcts arbitrary: acc) simp_all

lemma balance_score_equal:
  assumes "equal_positions n allocations" and "1 \<le> n"
  shows "balance_score_of allocations = Inr (if n = 1 then 0 else 100)"
proof -
  from assms(1) have len: "length allocations = n"
    and pct: "\<forall>alloc \<in> set allocations. alloc ''allocation_percent'' = Some (PNum (100 / of_nat n))"
    by (simp_all add: equal_positions_def)
  let ?pcts = "map (\<lambda>alloc. dict_get alloc ''allocation_percent'' (PNum 0)) allocations"
  from pct have "\<forall>v \<in> set ?pcts. v = PNum (100 / of_nat n)"
    by (auto simp: dict_get_def)
  then have "variance_loop (100 / of_nat n) 0 ?pcts = Inr 0"
    by (rule variance_loop_ideal)
  with len show ?thesis
    by (simp add: balance_score_of_def Let_def)
qed

lemma diversification_equal:
  assumes "equal_positions n allocations" and "1 \<le> n"
  shows "calculate_diversification allocations
         = Inr (min (of_nat n / 5 * 40 + of_nat n / 5 * 30 + (if n = 1 then 0 else 30)) 100)"
proof -
  from assms have ne: "allocations \<noteq> []" and len: "length allocations = n"
    and dist: "distinct (map (\<lambda>alloc. dict_get alloc ''protocol'' PNone) allocations)"
    by (auto simp: equal_positions_def)
  have protos:
    "length (remdups (map (\<lambda>alloc. dict_get alloc ''protocol'' PNone) allocations)) = n"
    unfolding distinct_remdups_id [OF dist] using len by simp
  have "calculate_diversification allocations
        = Inr (min (of_nat n / 5 * 40 + of_nat n / 5 * 30
                    + (if n = 1 then 0 else 100) / 100 * 30) 100)"
    unfolding calculate_diversification_def Let_def protos len
      balance_score_equal [OF assms]
    using ne by simp
  then show ?thesis by simp
qed

text \<open>
  Claim C7, as amended. For \<open>1 \<le> N \<le> 4\<close>, and lists of \<open>N\<close> and of
  \<open>N + 1\<close> equal-size positions in distinct protocols, the diversification score of
  the longer list is strictly greater: the scores are 14, 58, 72, 86 and 100 for
  \<open>N = 1, ..., 5\<close>. From five positions on the score is clamped to 100.
\<close>

theorem diversification_increasing:
  "1 \<le> n \<and> n \<le> 4 \<and> equal_positions n allocations \<and> equal_positions (Suc n) more_allocations \<longrightarrow>
     (\<exists>x y. calculate_diversification allocations = Inr x
            \<and> calculate_diversification more_allocations = Inr y \<and> x < y)"
proof
  assume a: "1 \<le> n \<and> n \<le> 4 \<and> equal_positions n allocations
             \<and> equal_positions (Suc n) more_allocations"
  then have n1: "1 \<le> n" and eq_n: "equal_positions n allocations"
    and eq_m: "equal_positions (Suc n) more_allocations" by simp_all
  have x: "calculate_diversification allocations
         = Inr (min (of_nat n / 5 * 40 + of_nat n / 5 * 30 + (if n = 1 then 0 else 30)) 100)"
    using eq_n n1 by (rule diversification_equal)
  have "calculate_diversification more_allocations
         = Inr (min (of_nat (Suc n) / 5 * 40 + of_nat (Suc n) / 5 * 30
                     + (if Suc n = 1 then 0 else 30)) 100)"
    using eq_m by (rule diversification_equal) simp
  with n1 have y: "calculate_diversification more_allocations
         = Inr (min (of_nat (Suc n) / 5 * 40 + of_nat (Suc n) / 5 * 30 + 30) 100)"
    by simp
  from a have "n = 1 \<or> n = 2 \<or> n = 3 \<or> n = 4" by auto
  then have "min (of_nat n / 5 * 40 + of_nat n / 5 * 30 + (if n = 1 then 0 else 30)) (100::rat)
             < min (of_nat (Suc n) / 5 * 40 + of_nat (Suc n) / 5 * 30 + 30) 100"
    by auto
  with x y show "\<exists>x y. calculate_diversification allocations = Inr x
            \<and> calculate_diversification more_allocations = Inr y \<and> x < y"
    by simp
qed

theorem diversification_increasing_witness:
  "calculate_diversification
     [[''protocol'' \<mapsto> PStr ''minswap'', ''allocation_percent'' \<mapsto> PNum 50],
      [''protocol'' \<mapsto> PStr ''liqwid'', ''allocation_percent'' \<mapsto> PNum 50]] = Inr 58
   \<and> calculate_diversification
     [[''protocol'' \<mapsto> PStr ''minswap'', ''allocation_percent'' \<mapsto> PNum (100 / 3)],
      [''protocol'' \<mapsto> PStr ''liqwid'', ''allocation_percent'' \<mapsto> PNum (100 / 3)],
      [''protocol'' \<mapsto> PStr ''indigo'', ''allocation_percent'' \<mapsto> PNum (100 / 3)]] = Inr 72"
proof -
  let ?two = "[[''protocol'' \<mapsto> PStr ''minswap'', ''allocation_percent'' \<mapsto> PNum 50],
      [''protocol'' \<mapsto> PStr ''liqwid'', ''allocation_percent'' \<mapsto> PNum (50::rat)]]"
  let ?three = "[[''protocol'' \<mapsto> PStr ''minswap'', ''allocation_percent'' \<mapsto> PNum (100 / 3)],
      [''protocol'' \<mapsto> PStr ''liqwid'', ''allocation_percent'' \<mapsto> PNum (100 / 3)],
      [''protocol'' \<mapsto> PStr ''indigo'', ''allocation_percent'' \<mapsto> PNum (100 / 3 :: rat)]]"
  have two: "equal_positions 2 ?two"
    by (simp add: equal_positions_def dict_get_def)
  have three: "equal_positions (Suc 2) ?three"
    by (simp add: equal_positions_def dict_get_def)
  have v2: "calculate_diversification ?two = Inr 58" by code_simp
  have v3: "calculate_diversification ?three = Inr 72" by code_simp
  from diversification_increasing [of 2 ?two ?three] two three v2 v3
  show ?thesis by simp
qed

text \<open>
  Claim C7 as stated takes \<open>N\<close> up to 5: the score of six equal positions would exceed
  the score of five. Both are 100.
\<close>

theorem diversification_five_six_counterexample:
  "calculate_diversification
     [[''protocol'' \<mapsto> PStr ''minswap'', ''allocation_percent'' \<mapsto> PNum 20],
      [''protocol'' \<mapsto> PStr ''sundaeswap'', ''allocation_percent'' \<mapsto> PNum 20],
      [''protocol'' \<mapsto> PStr ''liqwid'', ''allocation_percent'' \<mapsto> PNum 20],
      [''protocol'' \<mapsto> PStr ''indigo'', ''allocation_percent'' \<mapsto> PNum 20],
      [''protocol'' \<mapsto> PStr ''muesliswap'', ''allocation_percent'' \<mapsto> PNum 20]] = Inr 100
   \<and> calculate_diversification
     [[''protocol'' \<mapsto> PStr ''minswap'', ''allocation_percent'' \<mapsto> PNum (100 / 6)],
      [''protocol'' \<mapsto> PStr ''sundaeswap'', ''allocation_percent'' \<mapsto> PNum (100 / 6)],
      [''protocol'' \<mapsto> PStr ''liqwid'', ''allocation_percent'' \<mapsto> PNum (100 / 6)],
      [''protocol'' \<mapsto> PStr ''indigo'', ''allocation_percent'' \<mapsto> PNum (100 / 6)],
      [''protocol'' \<mapsto> PStr ''muesliswap'', ''allocation_percent'' \<mapsto> PNum (100 / 6)],
      [''protocol'' \<mapsto> PStr ''wingriders'', ''allocation_percent'' \<mapsto> PNum (100 / 6)]] = Inr 100"
  by code_simp

text \<open>
  Claim C4. In every response that \<open>assess_strategy\<close> returns, \<open>approved\<close> equals
  \<open>overall_risk_score \<le> 70\<close> for the score reported in its \<open>risk_analysis\<close>; in every
  success payload of the simplified risk agent, \<open>approved\<close> equals
  \<open>overall_risk_score \<le> 70\<close> as well.
\<close>

theorem approved_iff_score_at_most_70:
  "(assess_strategy self strat requester_wallet_id create_payment start_time end_time = Inr response
      \<longrightarrow> approved response = (overall_risk_score (risk_analysis response) \<le> 70))
   \<and> (simple_risk_execute llm_invoke now = RiskSuccess payload
      \<longrightarrow> simple_approved payload = (simple_overall_risk_score payload \<le> 70))"
proof (intro conjI impI)
  assume "assess_strategy self strat requester_wallet_id create_payment start_time end_time
          = Inr response"
  then show "approved response = (overall_risk_score (risk_analysis response) \<le> 70)"
    by (auto simp: assess_strategy_def Let_def split: sum.splits option.splits if_splits)
next
  assume "simple_risk_execute llm_invoke now = RiskSuccess payload"
  then show "simple_approved payload = (simple_overall_risk_score payload \<le> 70)"
    by (auto simp: simple_risk_execute_def split: sum.splits)
qed

theorem approved_iff_score_at_most_70_witness:
  "(\<exists>response.
      assess_strategy \<lparr> agent_id = None, wallet_id = ''w'', price_per_check = 1 / 50 \<rparr>
        \<lparr> strategy_id = None,
          recommended_allocations =
            Some [[''protocol'' \<mapsto> PStr ''minswap'', ''allocation_percent'' \<mapsto> PNum 60,
                   ''expected_apr'' \<mapsto> PNum 12],
                  [''protocol'' \<mapsto> PStr ''liqwid'', ''allocation_percent'' \<mapsto> PNum 40,
                   ''expected_apr'' \<mapsto> PNum 8]] \<rparr>
        None (Inl ValueError) 0 1 = Inr response
      \<and> overall_risk_score (risk_analysis response) = 151 / 5 \<and> approved response)
   \<and> (\<exists>response.
      assess_strategy \<lparr> agent_id = None, wallet_id = ''w'', price_per_check = 1 / 50 \<rparr>
        \<lparr> strategy_id = None,
          recommended_allocations =
            Some [[''protocol'' \<mapsto> PStr ''newdex'', ''allocation_percent'' \<mapsto> PNum 100,
                   ''expected_apr'' \<mapsto> PNum 200]] \<rparr>
        None (Inl ValueError) 0 1 = Inr response
      \<and> overall_risk_score (risk_analysis response) = 74 \<and> \<not> approved response)
   \<and> (\<exists>payload. simple_risk_execute (Inr ''ok'') 0 = RiskSuccess payload
        \<and> simple_approved payload \<and> simple_overall_risk_score payload = 55 / 2)"
proof -
  let ?self = "\<lparr> agent_id = None, wallet_id = ''w'', price_per_check = 1 / 50 \<rparr>"
  let ?low = "[[''protocol'' \<mapsto> PStr ''minswap'', ''allocation_percent'' \<mapsto> PNum 60,
                   ''expected_apr'' \<mapsto> PNum 12],
                  [''protocol'' \<mapsto> PStr ''liqwid'', ''allocation_percent'' \<mapsto> PNum 40,
                   ''expected_apr'' \<mapsto> PNum (8::rat)]]"
  let ?high = "[[''protocol'' \<mapsto> PStr ''newdex'', ''allocation_percent'' \<mapsto> PNum 100,
                   ''expected_apr'' \<mapsto> PNum (200::rat)]]"
  let ?s1 = "\<lparr> strategy_id = None, recommended_allocations = Some ?low \<rparr>"
  let ?s2 = "\<lparr> strategy_id = None, recommended_allocations = Some ?high \<rparr>"
  have c1: "calculate_concentration_risk ?low = Inr 52" by code_simp
  have p1: "calculate_protocol_risk ?low = Inr 29" by code_simp
  have a1: "calculate_apr_risk ?low = Inr 10" by code_simp
  have d1: "calculate_diversification ?low = Inr 28" by code_simp
  have r1: "round1 (overall_risk_of 52 29 10) = 151 / 5" by code_simp
  have c2: "calculate_concentration_risk ?high = Inr 100" by code_simp
  have p2: "calculate_protocol_risk ?high = Inr 50" by code_simp
  have a2: "calculate_apr_risk ?high = Inr 80" by code_simp
  have d2: "calculate_diversification ?high = Inr 14" by code_simp
  have r2: "round1 (overall_risk_of 100 50 80) = 74" by code_simp
  have "\<exists>response. assess_strategy ?self ?s1 None (Inl ValueError) 0 1 = Inr response
          \<and> overall_risk_score (risk_analysis response) = 151 / 5"
    by (simp add: assess_strategy_def analyze_strategy_def Let_def c1 p1 a1 d1 r1)
  then obtain resp1 where run1: "assess_strategy ?self ?s1 None (Inl ValueError) 0 1 = Inr resp1"
    and score1: "overall_risk_score (risk_analysis resp1) = 151 / 5" by blast
  have "\<exists>response. assess_strategy ?self ?s2 None (Inl ValueError) 0 1 = Inr response
          \<and> overall_risk_score (risk_analysis response) = 74"
    by (simp add: assess_strategy_def analyze_strategy_def Let_def c2 p2 a2 d2 r2)
  then obtain resp2 where run2: "assess_strategy ?self ?s2 None (Inl ValueError) 0 1 = Inr resp2"
    and score2: "overall_risk_score (risk_analysis resp2) = 74" by blast
  have "\<exists>payload. simple_risk_execute (Inr ''ok'') 0 = RiskSuccess payload
          \<and> simple_overall_risk_score payload = 55 / 2"
    by (simp add: simple_risk_execute_def)
  then obtain pl where run3: "simple_risk_execute (Inr ''ok'') 0 = RiskSuccess pl"
    and score3: "simple_overall_risk_score pl = 55 / 2" by blast
  from approved_iff_score_at_most_70 [of ?self ?s1 None "Inl ValueError" 0 1 resp1 "Inr ''ok''" 0 pl]
    run1 score1 run3 score3
  have ok1: "approved resp1" and ok3: "simple_approved pl" by simp_all
  from approved_iff_score_at_most_70 [of ?self ?s2 None "Inl ValueError" 0 1 resp2] run2 score2
  have ok2: "\<not> approved resp2" by simp
  from run1 score1 ok1 run2 score2 ok2 run3 score3 ok3 show ?thesis by blast
qed

lemma base_risk_of_le_50: "base_risk_of protocol \<le> 50"
  by (simp add: base_risk_of_def protocol_risk_ratings_def)

lemma round1_le:
  assumes "x \<le> of_int m / 10"
  shows "round1 x \<le> of_int m / 10"
proof -
  let ?f = "\<lfloor>x * 10\<rfloor>"
  from assms have ym: "x * 10 \<le> of_int m" by simp
  then have fm: "?f \<le> m" by (simp add: floor_le_iff)
  have "(if x * 10 - of_int ?f < 1 / 2 then ?f else if 1 / 2 < x * 10 - of_int ?f then ?f + 1
         else if even ?f then ?f else ?f + 1) \<le> m"
  proof (cases "?f = m")
    case True
    have "of_int ?f \<le> x * 10" by (rule of_int_floor_le)
    with True ym have "x * 10 - of_int ?f = 0" by simp
    with True show ?thesis by simp
  next
    case False
    with fm show ?thesis by simp
  qed
  then have "(of_int (if x * 10 - of_int ?f < 1 / 2 then ?f else if 1 / 2 < x * 10 - of_int ?f then ?f + 1
         else if even ?f then ?f else ?f + 1) :: rat) \<le> of_int m"
    by (simp only: of_int_le_iff)
  then show ?thesis
    by (simp add: round1_def Let_def divide_le_cancel)
qed

lemma round1_score_le:
  assumes "c \<le> 65"
  shows "round1 (c + base_risk_of p / 2) \<le> 90"
proof -
  from assms base_risk_of_le_50 [of p] have "c + base_risk_of p / 2 \<le> of_int 900 / 10"
    by simp
  then have "round1 (c + base_risk_of p / 2) \<le> of_int 900 / 10"
    by (rule round1_le)
  then show ?thesis by simp
qed

lemma validate_transaction_try_le_90:
  assumes "validate_transaction_try transaction = Inr v"
  shows "tx_risk_score v \<le> 90"
  using assms
  by (auto simp: validate_transaction_try_def Let_def round1_score_le
      split: sum.splits if_splits)

text \<open>
  Claim C8, as amended. Neither operation raises. When the body of
  \<open>validate_transaction\<close> raises, its handler returns the payload of a validation:
  not approved, risk score 100, and one warning holding the text of the exception; a body
  that returns gives a score of at most 90, so the score 100 comes from the handler only.
  When the body of \<open>analyze_portfolio_health\<close> raises, its handler returns the health
  score 0 together with the text of the exception.
\<close>

theorem failures_become_payloads:
  "(validate_transaction_try transaction = Inl e \<longrightarrow>
      validate_transaction transaction
        = \<lparr> tx_approved = False, tx_risk_score = 100, tx_warnings = [Validation_error e] \<rparr>)
   \<and> (validate_transaction_try transaction = Inr v \<longrightarrow>
        validate_transaction transaction = v \<and> tx_risk_score v \<le> 90)
   \<and> (analyze_portfolio_health_try pf = Inl e' \<longrightarrow>
        analyze_portfolio_health pf = HealthError 0 e')
   \<and> (analyze_portfolio_health_try pf = Inr report \<longrightarrow>
        analyze_portfolio_health pf = HealthReport report)"
  by (simp add: validate_transaction_def analyze_portfolio_health_def
      validate_transaction_try_le_90)

theorem failures_become_payloads_witness:
  "validate_transaction [''amount'' \<mapsto> PStr ''lots'']
     = \<lparr> tx_approved = False, tx_risk_score = 100, tx_warnings = [Validation_error TypeError] \<rparr>
   \<and> validate_transaction
       [''type'' \<mapsto> PStr ''swap'', ''amount'' \<mapsto> PNum 60000, ''protocol'' \<mapsto> PStr ''Minswap'']
     = \<lparr> tx_approved = True, tx_risk_score = 125 / 2, tx_warnings = [] \<rparr>
   \<and> analyze_portfolio_health \<lparr> positions = Some [[''value_ada'' \<mapsto> PNone]] \<rparr>
     = HealthError 0 TypeError
   \<and> analyze_portfolio_health
       \<lparr> positions = Some [[''allocation_percent'' \<mapsto> PNum 100, ''tvl_ada'' \<mapsto> PNum 600000,
                            ''volume_24h'' \<mapsto> PNum 60000, ''value_ada'' \<mapsto> PNum 5]] \<rparr>
     = HealthReport \<lparr> overall_health_score = 85 / 2, health_concentration_risk = 100,
                      liquidity_risk = 15, num_positions = 1, total_value_ada = 5 \<rparr>"
proof -
  let ?bad = "[''amount'' \<mapsto> PStr ''lots'']"
  let ?good = "[''type'' \<mapsto> PStr ''swap'', ''amount'' \<mapsto> PNum 60000, ''protocol'' \<mapsto> PStr ''Minswap'']"
  let ?pbad = "\<lparr> positions = Some [[''value_ada'' \<mapsto> PNone]] \<rparr>"
  let ?pgood = "\<lparr> positions = Some [[''allocation_percent'' \<mapsto> PNum 100, ''tvl_ada'' \<mapsto> PNum 600000,
                            ''volume_24h'' \<mapsto> PNum 60000, ''value_ada'' \<mapsto> PNum (5::rat)]] \<rparr>"
  have t1: "validate_transaction_try ?bad = Inl TypeError" by code_simp
  have t2: "validate_transaction_try ?good
            = Inr \<lparr> tx_approved = True, tx_risk_score = 125 / 2, tx_warnings = [] \<rparr>"
    by code_simp
  have t3: "analyze_portfolio_health_try ?pbad = Inl TypeError" by code_simp
  have t4: "analyze_portfolio_health_try ?pgood
            = Inr \<lparr> overall_health_score = 85 / 2, health_concentration_risk = 100,
                      liquidity_risk = 15, num_positions = 1, total_value_ada = 5 \<rparr>"
    by code_simp
  from failures_become_payloads [of ?bad TypeError _ ?pbad TypeError] t1 t3
  have a: "validate_transaction ?bad
     = \<lparr> tx_approved = False, tx_risk_score = 100, tx_warnings = [Validation_error TypeError] \<rparr>"
    and c: "analyze_portfolio_health ?pbad = HealthError 0 TypeError"
    by simp_all
  from failures_become_payloads [of ?good _ _ ?pgood _ _] t2 t4
  have b: "validate_transaction ?good
      = \<lparr> tx_approved = True, tx_risk_score = 125 / 2, tx_warnings = [] \<rparr>"
    and d: "analyze_portfolio_health ?pgood
      = HealthReport \<lparr> overall_health_score = 85 / 2, health_concentration_risk = 100,
                      liquidity_risk = 15, num_positions = 1, total_value_ada = 5 \<rparr>"
    by simp_all
  from a b c d show ?thesis by simp
qed

text \<open>
  Claim C8 as stated: an internal exception would surface as an error and not as a score.
  A transaction whose \<open>protocol\<close> is \<open>None\<close> raises \<open>AttributeError\<close> inside
  \<open>validate_transaction\<close>, which returns a rejected validation of risk score 100; a position
  whose \<open>tvl_ada\<close> is a string raises \<open>TypeError\<close> inside
  \<open>analyze_portfolio_health\<close>, which returns the health score 0.
\<close>

theorem failure_coerced_to_score_counterexample:
  "validate_transaction_try [''protocol'' \<mapsto> PNone] = Inl AttributeError
   \<and> validate_transaction [''protocol'' \<mapsto> PNone]
       = \<lparr> tx_approved = False, tx_risk_score = 100,
           tx_warnings = [Validation_error AttributeError] \<rparr>
   \<and> analyze_portfolio_health_try \<lparr> positions = Some [[''tvl_ada'' \<mapsto> PStr ''n/a'']] \<rparr>
       = Inl TypeError
   \<and> analyze_portfolio_health \<lparr> positions = Some [[''tvl_ada'' \<mapsto> PStr ''n/a'']] \<rparr>
       = HealthError 0 TypeError"
  by code_simp

lemma agent_config_valid_types:
  "(agent_config app name = None) = (name \<notin> set [''market'', ''strategy'', ''risk''])"
  by (auto simp: agent_config_def)

text \<open>
  Claim C9. A \<open>start_job\<close> request whose \<open>agent_type\<close> is not \<open>market\<close>,
  \<open>strategy\<close> or \<open>risk\<close> is answered with status 400, and a request for an agent
  that is not available with status 503. In both cases the job store is the one before
  the request, no response carries a job id and no background task is scheduled.
\<close>

theorem start_job_rejects_before_persisting:
  "(request_agent_type job_request \<notin> set [''market'', ''strategy'', ''risk''] \<longrightarrow>
      start_job app jobs job_request new_job_id new_payment_id now
        = (jobs, Inl (HTTPException 400 Invalid_agent_type)))
   \<and> (agent_config app (request_agent_type job_request) = Some config
       \<and> config_agent config = None \<longrightarrow>
      start_job app jobs job_request new_job_id new_payment_id now
        = (jobs, Inl (HTTPException 503 (Agent_not_available (config_name config)))))"
proof (intro conjI impI)
  assume "request_agent_type job_request \<notin> set [''market'', ''strategy'', ''risk'']"
  with agent_config_valid_types [of app "request_agent_type job_request"]
  have "agent_config app (request_agent_type job_request) = None"
    by blast
  then show "start_job app jobs job_request new_job_id new_payment_id now
        = (jobs, Inl (HTTPException 400 Invalid_agent_type))"
    by (simp add: start_job_def)
next
  assume "agent_config app (request_agent_type job_request) = Some config
       \<and> config_agent config = None"
  then show "start_job app jobs job_request new_job_id new_payment_id now
        = (jobs, Inl (HTTPException 503 (Agent_not_available (config_name config))))"
    by (simp add: start_job_def)
qed

theorem start_job_rejects_before_persisting_witness:
  "start_job \<lparr> market_agent = None, strategy_agent = None, risk_agent = Some (\<lambda>input. Inr ''done'') \<rparr>
     Map.empty
     \<lparr> request_agent_type = ''bogus'', request_input_data = [''query'' \<mapsto> PStr ''best yields''],
       request_identifier_from_purchaser = None \<rparr>
     ''job-1'' ''pay-1'' 0
   = (Map.empty :: string jobs_db, Inl (HTTPException 400 Invalid_agent_type))
   \<and> start_job \<lparr> market_agent = None, strategy_agent = None, risk_agent = Some (\<lambda>input. Inr ''done'') \<rparr>
     Map.empty
     \<lparr> request_agent_type = ''market'', request_input_data = [''query'' \<mapsto> PStr ''best yields''],
       request_identifier_from_purchaser = None \<rparr>
     ''job-1'' ''pay-1'' 0
   = (Map.empty :: string jobs_db,
      Inl (HTTPException 503 (Agent_not_available ''Market Intelligence Agent'')))"
proof -
  let ?app = "\<lparr> market_agent = None, strategy_agent = None,
                 risk_agent = Some (\<lambda>input. Inr ''done'') \<rparr> :: string app_state"
  let ?bogus = "\<lparr> request_agent_type = ''bogus'', request_input_data = [''query'' \<mapsto> PStr ''best yields''],
       request_identifier_from_purchaser = None \<rparr>"
  let ?market = "\<lparr> request_agent_type = ''market'', request_input_data = [''query'' \<mapsto> PStr ''best yields''],
       request_identifier_from_purchaser = None \<rparr>"
  let ?config = "\<lparr> config_agent = None :: string agent option, config_price_ada = 1 / 100,
          config_name = ''Market Intelligence Agent'',
          config_wallet_address = ''addr_test1market_demo'' \<rparr>"
  have invalid: "request_agent_type ?bogus \<notin> set [''market'', ''strategy'', ''risk'']"
    by simp
  have unavailable: "agent_config ?app (request_agent_type ?market) = Some ?config
                     \<and> config_agent ?config = None"
    by (simp add: agent_config_def)
  from start_job_rejects_before_persisting [of ?bogus ?app Map.empty "''job-1''" "''pay-1''" 0] invalid
  have a: "start_job ?app Map.empty ?bogus ''job-1'' ''pay-1'' 0
           = (Map.empty, Inl (HTTPException 400 Invalid_agent_type))"
    by simp
  from start_job_rejects_before_persisting [of ?market ?app Map.empty "''job-1''" "''pay-1''" 0 ?config]
    unavailable
  have b: "start_job ?app Map.empty ?market ''job-1'' ''pay-1'' 0
           = (Map.empty, Inl (HTTPException 503 (Agent_not_available ''Market Intelligence Agent'')))"
    by simp
  from a b show ?thesis by simp
qed

text \<open>
  Claim C3, as amended. Cancelling a job in state \<open>AWAITING_PAYMENT\<close>, or in any state
  other than \<open>COMPLETED\<close> and \<open>FAILED\<close>, succeeds and sets its status to
  \<open>CANCELLED\<close>. A second cancel request that follows the first with nothing in between
  succeeds as well: the status stays \<open>CANCELLED\<close> and \<open>updated_at\<close> takes the time of
  the second request. A cancel request fails with status 400, leaving the store unchanged,
  exactly for a job that is \<open>COMPLETED\<close> or \<open>FAILED\<close>, and with status 404 for an
  unknown job.
\<close>

theorem cancel_job_outcomes:
  "(jobs jid = Some j \<and> status j \<noteq> COMPLETED \<and> status j \<noteq> FAILED \<longrightarrow>
      cancel_job jobs jid now
        = (jobs(jid \<mapsto> j\<lparr>status := CANCELLED, updated_at := now\<rparr>), Inr (jid, ''cancelled'')))
   \<and> (jobs jid = Some j \<and> status j = AWAITING_PAYMENT \<longrightarrow>
      cancel_job (fst (cancel_job jobs jid now)) jid later
        = (jobs(jid \<mapsto> j\<lparr>status := CANCELLED, updated_at := later\<rparr>), Inr (jid, ''cancelled'')))
   \<and> (jobs jid = Some j \<and> (status j = COMPLETED \<or> status j = FAILED) \<longrightarrow>
      cancel_job jobs jid now
        = (jobs, Inl (HTTPException 400 (Cannot_cancel_job_in_status (status j)))))
   \<and> (jobs jid = None \<longrightarrow>
      cancel_job jobs jid now = (jobs, Inl (HTTPException 404 (Job_not_found jid))))"
  by (auto simp: cancel_job_def)

theorem cancel_job_outcomes_witness:
  "cancel_job
     (fst (cancel_job
        [''job-1'' \<mapsto>
           \<lparr> job_id = ''job-1'', agent_type = ''risk'', status = AWAITING_PAYMENT,
             payment_id = ''pay-1'', payment_status = ''awaiting'', input_data = Map.empty,
             identifier_from_purchaser = None, created_at = 0, updated_at = 0,
             result = None :: string option, error = None \<rparr>]
        ''job-1'' 1))
     ''job-1'' 2
   = ([''job-1'' \<mapsto>
         \<lparr> job_id = ''job-1'', agent_type = ''risk'', status = CANCELLED,
           payment_id = ''pay-1'', payment_status = ''awaiting'', input_data = Map.empty,
           identifier_from_purchaser = None, created_at = 0, updated_at = 2,
           result = None, error = None \<rparr>],
      Inr (''job-1'', ''cancelled''))
   \<and> cancel_job
     [''job-1'' \<mapsto>
           \<lparr> job_id = ''job-1'', agent_type = ''risk'', status = IN_PROGRESS,
             payment_id = ''pay-1'', payment_status = ''confirmed'', input_data = Map.empty,
             identifier_from_purchaser = None, created_at = 0, updated_at = 2,
             result = None :: string option, error = None \<rparr>]
     ''job-1'' 3
   = ([''job-1'' \<mapsto>
           \<lparr> job_id = ''job-1'', agent_type = ''risk'', status = CANCELLED,
             payment_id = ''pay-1'', payment_status = ''confirmed'', input_data = Map.empty,
             identifier_from_purchaser = None, created_at = 0, updated_at = 3,
             result = None, error = None \<rparr>],
      Inr (''job-1'', ''cancelled''))
   \<and> cancel_job
     [''job-1'' \<mapsto>
           \<lparr> job_id = ''job-1'', agent_type = ''risk'', status = COMPLETED,
             payment_id = ''pay-1'', payment_status = ''confirmed'', input_data = Map.empty,
             identifier_from_purchaser = None, created_at = 0, updated_at = 0,
             result = Some ''done'', error = None \<rparr>]
     ''job-1'' 1
   = ([''job-1'' \<mapsto>
           \<lparr> job_id = ''job-1'', agent_type = ''risk'', status = COMPLETED,
             payment_id = ''pay-1'', payment_status = ''confirmed'', input_data = Map.empty,
             identifier_from_purchaser = None, created_at = 0, updated_at = 0,
             result = Some ''done'', error = None \<rparr>],
      Inl (HTTPException 400 (Cannot_cancel_job_in_status COMPLETED)))
   \<and> cancel_job (Map.empty :: string jobs_db) ''job-1'' 1
   = (Map.empty, Inl (HTTPException 404 (Job_not_found ''job-1'')))"
proof -
  let ?j = "\<lparr> job_id = ''job-1'', agent_type = ''risk'', status = AWAITING_PAYMENT,
             payment_id = ''pay-1'', payment_status = ''awaiting'', input_data = Map.empty,
             identifier_from_purchaser = None, created_at = 0, updated_at = 0,
             result = None :: string option, error = None \<rparr>"
  let ?p = "\<lparr> job_id = ''job-1'', agent_type = ''risk'', status = IN_PROGRESS,
             payment_id = ''pay-1'', payment_status = ''confirmed'', input_data = Map.empty,
             identifier_from_purchaser = None, created_at = 0, updated_at = 2,
             result = None :: string option, error = None \<rparr>"
  let ?c = "\<lparr> job_id = ''job-1'', agent_type = ''risk'', status = COMPLETED,
             payment_id = ''pay-1'', payment_status = ''confirmed'', input_data = Map.empty,
             identifier_from_purchaser = None, created_at = 0, updated_at = 0,
             result = Some ''done'', error = None \<rparr>"
  have h1: "[''job-1'' \<mapsto> ?j] ''job-1'' = Some ?j \<and> status ?j = AWAITING_PAYMENT"
    by simp
  have h2: "[''job-1'' \<mapsto> ?p] ''job-1'' = Some ?p \<and> status ?p \<noteq> COMPLETED \<and> status ?p \<noteq> FAILED"
    by simp
  have h3: "[''job-1'' \<mapsto> ?c] ''job-1'' = Some ?c \<and> (status ?c = COMPLETED \<or> status ?c = FAILED)"
    by simp
  have h4: "(Map.empty :: string jobs_db) ''job-1'' = None"
    by simp
  from cancel_job_outcomes [of "[''job-1'' \<mapsto> ?j]" "''job-1''" ?j 1 2,
      THEN conjunct2, THEN conjunct1, THEN mp, OF h1]
  have a: "cancel_job (fst (cancel_job [''job-1'' \<mapsto> ?j] ''job-1'' 1)) ''job-1'' 2
        = ([''job-1'' \<mapsto> ?j\<lparr>status := CANCELLED, updated_at := 2\<rparr>],
           Inr (''job-1'', ''cancelled''))"
    by simp
  from cancel_job_outcomes [of "[''job-1'' \<mapsto> ?p]" "''job-1''" ?p 3 3,
      THEN conjunct1, THEN mp, OF h2]
  have b: "cancel_job [''job-1'' \<mapsto> ?p] ''job-1'' 3
        = ([''job-1'' \<mapsto> ?p\<lparr>status := CANCELLED, updated_at := 3\<rparr>],
           Inr (''job-1'', ''cancelled''))"
    by simp
  from cancel_job_outcomes [of "[''job-1'' \<mapsto> ?c]" "''job-1''" ?c 1 1,
      THEN conjunct2, THEN conjunct2, THEN conjunct1, THEN mp, OF h3]
  have c: "cancel_job [''job-1'' \<mapsto> ?c] ''job-1'' 1
        = ([''job-1'' \<mapsto> ?c], Inl (HTTPException 400 (Cannot_cancel_job_in_status COMPLETED)))"
    by simp
  from cancel_job_outcomes [of "Map.empty :: string jobs_db" "''job-1''" ?c 1 1,
      THEN conjunct2, THEN conjunct2, THEN conjunct2, THEN mp, OF h4]
  have d: "cancel_job (Map.empty :: string jobs_db) ''job-1'' 1
        = (Map.empty, Inl (HTTPException 404 (Job_not_found ''job-1'')))" .
  from a b c d show ?thesis by simp
qed

text \<open>
  Claim C3 as stated: the second cancel request would fail with status 400 and leave the
  record unchanged. It succeeds, and \<open>updated_at\<close> moves from 1 to 2.
\<close>

theorem second_cancel_succeeds_counterexample:
  "snd (cancel_job
     (fst (cancel_job
        [''job-1'' \<mapsto>
           \<lparr> job_id = ''job-1'', agent_type = ''risk'', status = AWAITING_PAYMENT,
             payment_id = ''pay-1'', payment_status = ''awaiting'', input_data = Map.empty,
             identifier_from_purchaser = None, created_at = 0, updated_at = 0,
             result = None :: string option, error = None \<rparr>]
        ''job-1'' 1))
     ''job-1'' 2) = Inr (''job-1'', ''cancelled'')
   \<and> map_option updated_at
        (fst (cancel_job
          [''job-1'' \<mapsto>
           \<lparr> job_id = ''job-1'', agent_type = ''risk'', status = AWAITING_PAYMENT,
             payment_id = ''pay-1'', payment_status = ''awaiting'', input_data = Map.empty,
             identifier_from_purchaser = None, created_at = 0, updated_at = 0,
             result = None :: string option, error = None \<rparr>]
          ''job-1'' 1) ''job-1'') = Some 1
   \<and> map_option updated_at
        (fst (cancel_job
          (fst (cancel_job
            [''job-1'' \<mapsto>
             \<lparr> job_id = ''job-1'', agent_type = ''risk'', status = AWAITING_PAYMENT,
               payment_id = ''pay-1'', payment_status = ''awaiting'', input_data = Map.empty,
               identifier_from_purchaser = None, created_at = 0, updated_at = 0,
               result = None :: string option, error = None \<rparr>]
            ''job-1'' 1))
          ''job-1'' 2) ''job-1'') = Some 2"
  by (simp add: cancel_job_def)





text \<open>
  Claim C1 on the code. A job is started, then cancelled while its background task sleeps.
  The cancel request succeeds and the status is \<open>CANCELLED\<close>. On waking, the task checks
  only that the job exists: it moves the job to \<open>IN_PROGRESS\<close>, runs the agent, and
  the job ends \<open>COMPLETED\<close> with the agent's result.
\<close>

theorem cancelled_job_is_completed:
  "(let app = \<lparr> market_agent = None, strategy_agent = None,
                 risk_agent = Some (\<lambda>input. Inr ''done'') \<rparr> :: string app_state;
        job_request = \<lparr> request_agent_type = ''risk'', request_input_data = Map.empty,
                        request_identifier_from_purchaser = None \<rparr>;
        started = start_job app Map.empty job_request ''job-1'' ''pay-1'' 0;
        cancelled = cancel_job (fst started) ''job-1'' 1
    in case snd started of
         Inl e \<Rightarrow> False
       | Inr (response, t) \<Rightarrow>
           snd cancelled = Inr (''job-1'', ''cancelled'')
           \<and> map_option status (fst cancelled ''job-1'') = Some CANCELLED
           \<and> map_option status (fst (poll_wake (fst cancelled) (task_job_id t) 2 2) ''job-1'')
               = Some IN_PROGRESS
           \<and> map_option status (poll_payment_status (fst cancelled) t 2 2 3 ''job-1'')
               = Some COMPLETED
           \<and> map_option result (poll_payment_status (fst cancelled) t 2 2 3 ''job-1'')
               = Some (Some ''done''))"
  by (simp add: start_job_def agent_config_def cancel_job_def poll_payment_status_def
      poll_wake_def poll_finish_def Let_def)

end
